theory Spec2Isabelle
  imports Complex_Main
begin

section \<open>Python and numpy values\<close>

text \<open>
  The module \<open>SoAPy/analysis.py\<close> consists of seven functions over nested Python lists.
  A function that raises is modelled by a result in \<open>py_error + 'a\<close>, with \<open>Inl\<close> for the
  exception that leaves the function.
\<close>

datatype py_error = IndexError | TypeError | ValueError | ZeroDivisionError | UnboundLocalError

definition py_bind :: "py_error + 'a \<Rightarrow> ('a \<Rightarrow> py_error + 'b) \<Rightarrow> py_error + 'b" where
  "py_bind m f = (case m of Inl e \<Rightarrow> Inl e | Inr v \<Rightarrow> f v)"

text \<open>
  \<open>xs[i]\<close> on a Python list or a one-dimensional numpy array: a negative index counts
  from the end, an index outside \<open>-len(xs) .. len(xs)-1\<close> raises IndexError.
\<close>

definition getitem :: "'a list \<Rightarrow> int \<Rightarrow> py_error + 'a" where
  "getitem xs i =
     (if 0 \<le> i \<and> i < int (length xs) then Inr (xs ! nat i)
      else if i < 0 \<and> - int (length xs) \<le> i then Inr (xs ! nat (int (length xs) + i))
      else Inl IndexError)"

text \<open>
  \<open>for x in xs: body\<close> over a state: the first exception ends the loop and the function.
\<close>

fun for_each :: "'a list \<Rightarrow> ('a \<Rightarrow> 's \<Rightarrow> py_error + 's) \<Rightarrow> 's \<Rightarrow> py_error + 's" where
  "for_each [] body s = Inr s"
| "for_each (x # xs) body s = py_bind (body x s) (for_each xs body)"

text \<open>
  The entries of one row of \<open>dir_parameters\<close> are Python objects of several types; the
  averaging routine applies \<open>len\<close>, \<open>int\<close> and \<open>float\<close> to them.
\<close>

datatype pyval = PyInt int | PyFloat real | PyStr string | PyList "pyval list"

definition py_len :: "pyval \<Rightarrow> py_error + nat" where
  "py_len v = (case v of PyStr s \<Rightarrow> Inr (length s) | PyList vs \<Rightarrow> Inr (length vs)
                 | _ \<Rightarrow> Inl TypeError)"

text \<open>
  \<open>int(s)\<close> for a string: white space around the numeral is dropped, one sign may lead,
  and single underscores may separate decimal digits. Characters are code points below 256.
  The white space is tab, line feed, vertical tab, form feed, carriage return and space,
  and beyond ASCII the next-line character 133 and the no-break space 160. A numeral of
  more than 4300 digits is refused.
\<close>

definition is_space :: "char \<Rightarrow> bool" where
  "is_space c = ((of_char c :: nat) \<in> {9, 10, 11, 12, 13, 32, 133, 160})"

definition is_digit :: "char \<Rightarrow> bool" where
  "is_digit c = (48 \<le> (of_char c :: nat) \<and> (of_char c :: nat) \<le> 57)"

definition strip :: "string \<Rightarrow> string" where
  "strip s = rev (dropWhile is_space (rev (dropWhile is_space s)))"

fun valid_body :: "string \<Rightarrow> bool" where
  "valid_body [] = False"
| "valid_body [c] = is_digit c"
| "valid_body (c # d # r) =
     (is_digit c \<and> (if d = CHR ''_'' then valid_body r else valid_body (d # r)))"

definition digits_value :: "string \<Rightarrow> int" where
  "digits_value s = foldl (\<lambda>acc c. 10 * acc + (of_char c - 48)) 0 (filter is_digit s)"

definition int_of_str :: "string \<Rightarrow> py_error + int" where
  "int_of_str s =
     (case strip s of
        [] \<Rightarrow> Inl ValueError
      | c # r \<Rightarrow>
          (let neg = (c = CHR ''-'');
               body = (if c = CHR ''-'' \<or> c = CHR ''+'' then r else c # r)
           in if valid_body body \<and> length (filter is_digit body) \<le> 4300
              then Inr ((if neg then - 1 else 1) * digits_value body)
              else Inl ValueError))"

definition py_int :: "pyval \<Rightarrow> py_error + int" where
  "py_int v = (case v of
       PyInt n \<Rightarrow> Inr n
     | PyFloat r \<Rightarrow> Inr (if 0 \<le> r then \<lfloor>r\<rfloor> else \<lceil>r\<rceil>)
     | PyStr s \<Rightarrow> int_of_str s
     | PyList vs \<Rightarrow> Inl TypeError)"

text \<open>
  \<open>float(v)\<close>. Every string that \<open>int\<close> accepts denotes the same number under
  \<open>float\<close>. In \<open>opt_rot_averaging\<close> the loop test \<open>int(dir_parameters[a][5])\<close> runs
  before each \<open>float(dir_parameters[a][5])\<close>, so no other string reaches \<open>float\<close>;
  such a string is given ValueError here. Python floats are modelled by the reals.
\<close>

definition py_float :: "pyval \<Rightarrow> py_error + real" where
  "py_float v = (case v of
       PyInt n \<Rightarrow> Inr (of_int n)
     | PyFloat r \<Rightarrow> Inr r
     | PyStr s \<Rightarrow> py_bind (int_of_str s) (\<lambda>n. Inr (of_int n))
     | PyList vs \<Rightarrow> Inl TypeError)"

text \<open>Division of Python floats raises on a zero divisor.\<close>

definition py_truediv :: "real \<Rightarrow> real \<Rightarrow> py_error + real" where
  "py_truediv x y = (if y = 0 then Inl ZeroDivisionError else Inr (x / y))"

section \<open>The averaging routine\<close>

text \<open>
  Lines 199 to 202: one update \<open>averages[c] += ...\<close>. The two \<open>print\<close> calls write to
  standard output and are left out.
\<close>

definition accumulate ::
  "real list list \<Rightarrow> pyval \<Rightarrow> real \<Rightarrow> nat \<Rightarrow> nat \<Rightarrow> nat \<Rightarrow> nat \<Rightarrow> real list
     \<Rightarrow> py_error + real list" where
  "accumulate dir_intensities p5 molecule_MM a d b c averages =
     py_bind (getitem dir_intensities (int a)) (\<lambda>row.
     py_bind (getitem row (int (d * b + c))) (\<lambda>x.
     py_bind (py_float p5) (\<lambda>f.
     py_bind (py_truediv x (if molecule_MM \<noteq> 0 then f * molecule_MM else f)) (\<lambda>q.
     Inr (averages[c := averages ! c + q])))))"

text \<open>
  Lines 197 to 205: \<open>while b < int(dir_parameters[a][5])\<close> around the loop over the
  channels \<open>c\<close>; \<open>k\<close> is \<open>len(dir_parameters[a][6])\<close>.
\<close>

function while_blocks ::
  "real list list \<Rightarrow> pyval \<Rightarrow> real \<Rightarrow> nat \<Rightarrow> nat \<Rightarrow> nat \<Rightarrow> nat \<Rightarrow> real list
     \<Rightarrow> py_error + real list" where
  "while_blocks dir_intensities p5 molecule_MM a d k b averages =
     (case py_int p5 of
        Inl e \<Rightarrow> Inl e
      | Inr n \<Rightarrow>
          if int b < n
          then (case for_each [0..<k] (accumulate dir_intensities p5 molecule_MM a d b) averages of
                  Inl e \<Rightarrow> Inl e
                | Inr averages' \<Rightarrow>
                    while_blocks dir_intensities p5 molecule_MM a d k (b + 1) averages')
          else Inr averages)"
  by pat_completeness auto
termination
  by (relation "measure (\<lambda>(dir_intensities, p5, molecule_MM, a, d, k, b, averages).
        case py_int p5 of Inl e \<Rightarrow> 0 | Inr n \<Rightarrow> nat (n - int b))") auto

text \<open>Lines 193 to 205 for one molecule index \<open>a\<close>.\<close>

definition molecule_averages ::
  "real list list \<Rightarrow> pyval list list \<Rightarrow> real \<Rightarrow> nat \<Rightarrow> py_error + real list" where
  "molecule_averages dir_intensities dir_parameters molecule_MM a =
     py_bind (getitem dir_parameters (int a)) (\<lambda>row.
     py_bind (getitem row 6) (\<lambda>p6.
     py_bind (py_len p6) (\<lambda>k.
     py_bind (getitem row 5) (\<lambda>p5.
     py_bind (py_len p5) (\<lambda>d.
     while_blocks dir_intensities p5 molecule_MM a d k 0 (replicate k 0))))))"

definition opt_rot_averaging ::
  "real list list \<Rightarrow> pyval list list \<Rightarrow> 'm list \<Rightarrow> real \<Rightarrow> py_error + real list" where
  "opt_rot_averaging dir_intensities dir_parameters dir_list molecule_MM =
     for_each [0..<length dir_list]
       (\<lambda>a opt_rot_averages.
          py_bind (molecule_averages dir_intensities dir_parameters molecule_MM a)
            (\<lambda>averages. Inr (opt_rot_averages @ averages)))
       []"

section \<open>numpy scalars and arrays\<close>

text \<open>
  A numpy \<open>float64\<close> is modelled without rounding: a finite value is its exact real
  value. numpy does not raise on a division by zero, on the root of a negative number or on
  an overflow: it warns and continues with an infinity or a NaN. The model keeps these
  values, and the negative zero, since the sign of a later quotient depends on them.
  \<open>Fin 0\<close> is the zero with a positive sign; \<open>Inf True\<close> is minus infinity.

  The sum and the product of two scalars overflow: a result whose exact value reaches
  \<open>2^1024 - 2^970\<close>, the least magnitude that rounds to an infinity, is that infinity.
  A quotient is kept exact; \<open>compute_statistics\<close>, the one function that adds and
  multiplies scalars, divides by lengths only, and that cannot overflow.
\<close>

datatype npfloat = Fin real | NegZero | Inf bool | NaN

fun is_neg :: "npfloat \<Rightarrow> bool" where
  "is_neg (Fin x) = (x < 0)"
| "is_neg NegZero = True"
| "is_neg (Inf s) = s"
| "is_neg NaN = False"

fun fin_val :: "npfloat \<Rightarrow> real option" where
  "fin_val (Fin x) = Some x"
| "fin_val NegZero = Some 0"
| "fin_val (Inf s) = None"
| "fin_val NaN = None"

text \<open>The finite value \<open>x\<close>; the sign bit \<open>s\<close> only matters for a zero.\<close>

definition signed :: "bool \<Rightarrow> real \<Rightarrow> npfloat" where
  "signed s x = (if x = 0 \<and> s then NegZero else Fin x)"

definition float64_overflows :: "real \<Rightarrow> bool" where
  "float64_overflows x = (2 ^ 1024 - 2 ^ 970 \<le> \<bar>x\<bar>)"

definition rounded :: "bool \<Rightarrow> real \<Rightarrow> npfloat" where
  "rounded s x = (if float64_overflows x then Inf (x < 0) else signed s x)"

definition np_add :: "npfloat \<Rightarrow> npfloat \<Rightarrow> npfloat" where
  "np_add a b = (case (fin_val a, fin_val b) of
       (Some x, Some y) \<Rightarrow> rounded (is_neg a \<and> is_neg b) (x + y)
     | (Some x, None) \<Rightarrow> b
     | (None, Some y) \<Rightarrow> a
     | (None, None) \<Rightarrow> (if a = b then a else NaN))"

fun np_negative :: "npfloat \<Rightarrow> npfloat" where
  "np_negative (Fin x) = signed True (- x)"
| "np_negative NegZero = Fin 0"
| "np_negative (Inf s) = Inf (\<not> s)"
| "np_negative NaN = NaN"

definition np_subtract :: "npfloat \<Rightarrow> npfloat \<Rightarrow> npfloat" where
  "np_subtract a b = np_add a (np_negative b)"

definition np_mul :: "npfloat \<Rightarrow> npfloat \<Rightarrow> npfloat" where
  "np_mul a b = (case (fin_val a, fin_val b) of
       (Some x, Some y) \<Rightarrow> rounded (is_neg a \<noteq> is_neg b) (x * y)
     | (Some x, None) \<Rightarrow> (if b = NaN \<or> x = 0 then NaN else Inf (is_neg a \<noteq> is_neg b))
     | (None, Some y) \<Rightarrow> (if a = NaN \<or> y = 0 then NaN else Inf (is_neg a \<noteq> is_neg b))
     | (None, None) \<Rightarrow> (if a = NaN \<or> b = NaN then NaN else Inf (is_neg a \<noteq> is_neg b)))"

text \<open>\<open>x**2\<close> on a \<open>float64\<close>.\<close>

definition np_square :: "npfloat \<Rightarrow> npfloat" where
  "np_square a = np_mul a a"

definition np_divide :: "npfloat \<Rightarrow> npfloat \<Rightarrow> npfloat" where
  "np_divide a b = (case (fin_val a, fin_val b) of
       (Some x, Some y) \<Rightarrow>
         (if y = 0 then (if x = 0 then NaN else Inf (is_neg a \<noteq> is_neg b))
          else signed (is_neg a \<noteq> is_neg b) (x / y))
     | (Some x, None) \<Rightarrow> (if b = NaN then NaN else signed (is_neg a \<noteq> is_neg b) 0)
     | (None, Some y) \<Rightarrow> (if a = NaN then NaN else Inf (is_neg a \<noteq> is_neg b))
     | (None, None) \<Rightarrow> NaN)"

fun np_sqrt :: "npfloat \<Rightarrow> npfloat" where
  "np_sqrt (Fin x) = (if x < 0 then NaN else Fin (sqrt x))"
| "np_sqrt NegZero = NegZero"
| "np_sqrt (Inf s) = (if s then NaN else Inf False)"
| "np_sqrt NaN = NaN"

fun np_abs :: "npfloat \<Rightarrow> npfloat" where
  "np_abs (Fin x) = Fin \<bar>x\<bar>"
| "np_abs NegZero = Fin 0"
| "np_abs (Inf s) = Inf False"
| "np_abs NaN = NaN"

text \<open>The comparisons \<open>v > 0\<close> and \<open>v < 0\<close>; both are false on a zero and on NaN.\<close>

fun np_gt0 :: "npfloat \<Rightarrow> bool" where
  "np_gt0 (Fin x) = (0 < x)"
| "np_gt0 NegZero = False"
| "np_gt0 (Inf s) = (\<not> s)"
| "np_gt0 NaN = False"

fun np_lt0 :: "npfloat \<Rightarrow> bool" where
  "np_lt0 (Fin x) = (x < 0)"
| "np_lt0 NegZero = False"
| "np_lt0 (Inf s) = s"
| "np_lt0 NaN = False"

text \<open>
  \<open>np.array(xs)\<close> of a list of real numbers is a one-dimensional array of finite values.
  The arithmetic on arrays and \<open>np.trapz\<close> are kept exact, so an array is a
  \<open>real list\<close> and the value of \<open>np.trapz\<close> a real number. The zero of the reals
  stands for the positive zero: an entry, a difference of two entries or an integral that
  is zero divides as \<open>+0.0\<close> does.

  An elementwise operation on two arrays broadcasts an array of length one and raises
  ValueError on any other pair of different lengths.
\<close>

definition broadcast ::
  "(real \<Rightarrow> real \<Rightarrow> real) \<Rightarrow> real list \<Rightarrow> real list \<Rightarrow> py_error + real list" where
  "broadcast f xs ys =
     (if length xs = length ys then Inr (map2 f xs ys)
      else if length xs = 1 then Inr (map (f (hd xs)) ys)
      else if length ys = 1 then Inr (map (\<lambda>x. f x (hd ys)) xs)
      else Inl ValueError)"

definition np_multiply :: "real list \<Rightarrow> real list \<Rightarrow> py_error + real list" where
  "np_multiply xs ys = broadcast (*) xs ys"

text \<open>
  \<open>np.trapz(y, x = x)\<close> for one-dimensional arrays:
  \<open>d = diff(x)\<close>, then \<open>(d * (y[1:] + y[:-1]) / 2.0).sum()\<close>.
\<close>

definition np_diff :: "real list \<Rightarrow> real list" where
  "np_diff x = map2 (-) (tl x) (butlast x)"

definition np_trapz :: "real list \<Rightarrow> real list \<Rightarrow> py_error + real" where
  "np_trapz y x =
     py_bind (np_multiply (np_diff x) (map2 (+) (tl y) (butlast y)))
       (\<lambda>p. Inr (sum_list (map (\<lambda>v. v / 2) p)))"

text \<open>
  \<open>np.average(xs)\<close> without weights is the sum of the entries over their count; of no
  entries it is NaN. The entries are added from \<open>0.0\<close> in their order. numpy adds longer
  arrays in blocks; the order matters only to rounding and to an overflow of a partial sum.
\<close>

definition np_sum :: "real list \<Rightarrow> npfloat" where
  "np_sum xs = foldl np_add (Fin 0) (map Fin xs)"

definition np_average :: "real list \<Rightarrow> npfloat" where
  "np_average xs = np_divide (np_sum xs) (Fin (real (length xs)))"

section \<open>The overlap family\<close>

definition single_denominator_overlap ::
  "real list list \<Rightarrow> real list list \<Rightarrow> int \<Rightarrow> int \<Rightarrow> py_error + npfloat" where
  "single_denominator_overlap dir_frequency_axis dir_intensity_axis sample_index reference_index =
     py_bind (getitem dir_intensity_axis sample_index) (\<lambda>sample_intensity.
     py_bind (getitem dir_frequency_axis reference_index) (\<lambda>reference_frequency.
     py_bind (getitem dir_intensity_axis reference_index) (\<lambda>reference_intensity.
     py_bind (np_multiply reference_intensity sample_intensity) (\<lambda>rs.
     py_bind (np_trapz rs reference_frequency) (\<lambda>numerator.
     py_bind (np_multiply reference_intensity reference_intensity) (\<lambda>rr.
     py_bind (np_trapz rr reference_frequency) (\<lambda>denominator.
     Inr (np_divide (Fin numerator) (Fin denominator)))))))))"

definition double_denominator_overlap ::
  "real list list \<Rightarrow> real list list \<Rightarrow> int \<Rightarrow> int \<Rightarrow> py_error + npfloat" where
  "double_denominator_overlap dir_frequency_axis dir_intensity_axis sample_index reference_index =
     py_bind (getitem dir_intensity_axis sample_index) (\<lambda>sample_intensity.
     py_bind (getitem dir_frequency_axis reference_index) (\<lambda>reference_frequency.
     py_bind (getitem dir_intensity_axis reference_index) (\<lambda>reference_intensity.
     py_bind (np_multiply reference_intensity sample_intensity) (\<lambda>rs.
     py_bind (np_trapz rs reference_frequency) (\<lambda>numerator.
     py_bind (np_multiply reference_intensity reference_intensity) (\<lambda>rr.
     py_bind (np_trapz rr reference_frequency) (\<lambda>tr.
     py_bind (np_multiply sample_intensity sample_intensity) (\<lambda>ss.
     py_bind (np_trapz ss reference_frequency) (\<lambda>ts.
     Inr (np_divide (Fin numerator) (np_sqrt (Fin (tr * ts)))))))))))))"

definition integrated_difference ::
  "real list list \<Rightarrow> real list list \<Rightarrow> int \<Rightarrow> int \<Rightarrow> py_error + npfloat" where
  "integrated_difference dir_frequency_axis dir_intensity_axis sample_index reference_index =
     py_bind (getitem dir_intensity_axis sample_index) (\<lambda>sample_intensity.
     py_bind (getitem dir_frequency_axis reference_index) (\<lambda>reference_frequency.
     py_bind (getitem dir_intensity_axis reference_index) (\<lambda>reference_intensity.
     py_bind (np_trapz (map (\<lambda>v. v ^ 2) reference_intensity) reference_frequency) (\<lambda>tr.
     py_bind (np_trapz (map (\<lambda>v. v ^ 2) sample_intensity) reference_frequency) (\<lambda>ts.
     py_bind (np_trapz (map (\<lambda>v. v ^ 2) reference_intensity) reference_frequency) (\<lambda>denominator.
     Inr (np_divide (Fin (tr - ts)) (Fin denominator))))))))"

section \<open>Statistics\<close>

text \<open>
  The local variables of the loop of \<open>compute_statistics\<close>. The two variances are bound
  by the first pass through the loop body and by nothing else.
\<close>

record variance_vars =
  sample_variance_numerator :: npfloat
  sample_variance :: "npfloat option"
  reference_variance_numerator :: npfloat
  reference_variance :: "npfloat option"

text \<open>Lines 103 to 107, the loop body at index \<open>b\<close>.\<close>

definition variance_step ::
  "real list \<Rightarrow> real list \<Rightarrow> npfloat \<Rightarrow> npfloat \<Rightarrow> nat \<Rightarrow> variance_vars
     \<Rightarrow> py_error + variance_vars" where
  "variance_step sample reference sample_mean reference_mean b vars =
     py_bind (getitem sample (int b)) (\<lambda>x.
       let sn = np_add (sample_variance_numerator vars)
                  (np_square (np_subtract (Fin x) sample_mean));
           sv = np_divide sn (Fin (real (length sample)))
       in
     py_bind (getitem reference (int b)) (\<lambda>y.
       let rn = np_add (reference_variance_numerator vars)
                  (np_square (np_subtract (Fin y) reference_mean));
           rv = np_divide rn (Fin (real (length reference)))
       in Inr \<lparr>sample_variance_numerator = sn, sample_variance = Some sv,
               reference_variance_numerator = rn, reference_variance = Some rv\<rparr>))"

text \<open>Lines 100 to 107: the loop runs over \<open>range(len(dir_intensities[sample_index]))\<close>.\<close>

definition variance_loop ::
  "real list \<Rightarrow> real list \<Rightarrow> npfloat \<Rightarrow> npfloat \<Rightarrow> py_error + variance_vars" where
  "variance_loop sample reference sample_mean reference_mean =
     for_each [0..<length sample] (variance_step sample reference sample_mean reference_mean)
       \<lparr>sample_variance_numerator = Fin 0, sample_variance = None,
        reference_variance_numerator = Fin 0, reference_variance = None\<rparr>"

text \<open>Reading a local variable that no assignment has bound raises UnboundLocalError.\<close>

definition read_local :: "'a option \<Rightarrow> py_error + 'a" where
  "read_local v = (case v of None \<Rightarrow> Inl UnboundLocalError | Some x \<Rightarrow> Inr x)"

definition compute_statistics ::
  "real list list \<Rightarrow> int \<Rightarrow> int \<Rightarrow> py_error + npfloat \<times> npfloat \<times> npfloat" where
  "compute_statistics dir_intensities sample_index reference_index =
     py_bind (getitem dir_intensities sample_index) (\<lambda>sample.
     py_bind (getitem dir_intensities reference_index) (\<lambda>reference.
       let sample_mean = np_average sample;
           reference_mean = np_average reference
       in
     py_bind (variance_loop sample reference sample_mean reference_mean) (\<lambda>vars.
     py_bind (read_local (sample_variance vars)) (\<lambda>sv.
     py_bind (read_local (reference_variance vars)) (\<lambda>rv.
       let sample_standard_deviation = np_sqrt sv;
           reference_standard_deviation = np_sqrt rv;
           mean_diff = np_abs (np_subtract reference_mean sample_mean);
           variance_diff = np_abs (np_subtract rv sv);
           standard_deviation_diff =
             np_abs (np_subtract reference_standard_deviation sample_standard_deviation)
       in Inr (mean_diff, variance_diff, standard_deviation_diff))))))"

section \<open>Sign and ordering diagnostics\<close>

text \<open>
  The \<open>if\<close>/\<open>elif\<close> of lines 140 to 143 and 180 to 183: a positive value binds \<open>sign\<close> to
  \<open>1\<close>, a negative one to \<open>-1\<close>, and any other value leaves \<open>sign\<close> as it was. The local
  variable \<open>sign\<close> is \<open>None\<close> until an assignment has bound it.
\<close>

definition choose_sign :: "npfloat \<Rightarrow> int option \<Rightarrow> int option" where
  "choose_sign v sign = (if np_gt0 v then Some 1 else if np_lt0 v then Some (- 1) else sign)"

text \<open>Lines 138 to 146, the loop body of \<open>wrong_signs\<close> at index \<open>a\<close>.\<close>

definition wrong_signs_step ::
  "real list \<Rightarrow> real list \<Rightarrow> real list \<Rightarrow> real list \<Rightarrow> nat
     \<Rightarrow> real list \<times> int list \<times> int option \<Rightarrow> py_error + real list \<times> int list \<times> int option" where
  "wrong_signs_step sample_frequency sample_intensity reference_frequency reference_intensity a vars =
     (case vars of (delta_freq, sign_change, sign) \<Rightarrow>
     py_bind (getitem reference_frequency (int a)) (\<lambda>rf.
     py_bind (getitem sample_frequency (int a)) (\<lambda>sf.
       let frequency_displacement = rf - sf in
     py_bind (getitem sample_intensity (int a)) (\<lambda>si.
     py_bind (getitem reference_intensity (int a)) (\<lambda>ri.
       let intensity_sign = np_divide (Fin si) (Fin ri);
           sign' = choose_sign intensity_sign sign
       in
     py_bind (read_local sign') (\<lambda>sg.
     Inr (delta_freq @ [frequency_displacement], sign_change @ [sg], sign')))))))"

definition wrong_signs ::
  "real list list \<Rightarrow> real list list \<Rightarrow> int \<Rightarrow> int \<Rightarrow> py_error + real list \<times> int list" where
  "wrong_signs dir_frequencies dir_intensities sample_index reference_index =
     py_bind (getitem dir_frequencies sample_index) (\<lambda>sample_frequency.
     py_bind (getitem dir_intensities sample_index) (\<lambda>sample_intensity.
     py_bind (getitem dir_frequencies reference_index) (\<lambda>reference_frequency.
     py_bind (getitem dir_intensities reference_index) (\<lambda>reference_intensity.
     py_bind (for_each [0..<length reference_frequency]
                (wrong_signs_step sample_frequency sample_intensity
                   reference_frequency reference_intensity)
                ([], [], None)) (\<lambda>vars.
     Inr (fst vars, fst (snd vars)))))))"

text \<open>Lines 167 to 185, the loop body of \<open>normal_mode_reordering\<close> at index \<open>a\<close>.\<close>

definition normal_mode_step ::
  "real list \<Rightarrow> real list \<Rightarrow> real list \<Rightarrow> real list \<Rightarrow> nat
     \<Rightarrow> int list \<times> int option \<Rightarrow> py_error + int list \<times> int option" where
  "normal_mode_step sample_frequency sample_intensity reference_frequency reference_intensity a vars =
     (case vars of (slope_sign, sign) \<Rightarrow>
     if int a = int (length reference_frequency) - 1 then Inr (slope_sign @ [0], sign)
     else
       py_bind (getitem reference_frequency (int a)) (\<lambda>rf0.
       py_bind (getitem reference_frequency (int a + 1)) (\<lambda>rf1.
       py_bind (getitem reference_intensity (int a)) (\<lambda>ri0.
       py_bind (getitem reference_intensity (int a + 1)) (\<lambda>ri1.
         let reference_derivative = np_divide (Fin (ri0 - ri1)) (Fin (rf0 - rf1)) in
       py_bind (getitem sample_frequency (int a)) (\<lambda>sf0.
       py_bind (getitem sample_frequency (int a + 1)) (\<lambda>sf1.
       py_bind (getitem sample_intensity (int a)) (\<lambda>si0.
       py_bind (getitem sample_intensity (int a + 1)) (\<lambda>si1.
         let sample_derivative = np_divide (Fin (si0 - si1)) (Fin (sf0 - sf1));
             derivative_sign = np_divide sample_derivative reference_derivative;
             sign' = choose_sign derivative_sign sign
         in
       py_bind (read_local sign') (\<lambda>sg.
       Inr (slope_sign @ [sg], sign')))))))))))"

definition normal_mode_reordering ::
  "real list list \<Rightarrow> real list list \<Rightarrow> int \<Rightarrow> int \<Rightarrow> py_error + int list" where
  "normal_mode_reordering dir_frequencies dir_intensities sample_index reference_index =
     py_bind (getitem dir_frequencies sample_index) (\<lambda>sample_frequency.
     py_bind (getitem dir_intensities sample_index) (\<lambda>sample_intensity.
     py_bind (getitem dir_frequencies reference_index) (\<lambda>reference_frequency.
     py_bind (getitem dir_intensities reference_index) (\<lambda>reference_intensity.
     py_bind (for_each [0..<length reference_frequency]
                (normal_mode_step sample_frequency sample_intensity
                   reference_frequency reference_intensity)
                ([], None)) (\<lambda>vars.
     Inr (fst vars))))))"

section \<open>Basic lemmas\<close>

lemma py_bind_Inr [simp]: "py_bind (Inr v) f = f v"
  by (simp add: py_bind_def)

lemma py_bind_Inl [simp]: "py_bind (Inl e) f = Inl e"
  by (simp add: py_bind_def)

lemma getitem_nat: "getitem xs (int a) = (if a < length xs then Inr (xs ! a) else Inl IndexError)"
  by (simp add: getitem_def)

lemma for_each_append:
  "for_each (xs @ ys) body s = py_bind (for_each xs body s) (for_each ys body)"
  by (induction xs arbitrary: s) (auto simp: py_bind_def split: sum.splits)

lemma py_bind_for_each_Nil [simp]: "py_bind m (for_each [] body) = m"
  by (cases m) simp_all

lemma for_each_upt_Suc:
  "for_each [0..<Suc m] body s = py_bind (for_each [0..<m] body s) (body m)"
  by (cases "for_each [0..<m] body s") (simp_all add: for_each_append)

lemma np_divide_Fin_pos: "0 < y \<Longrightarrow> np_divide (Fin x) (Fin y) = Fin (x / y)"
  by (auto simp: np_divide_def signed_def)

lemma np_divide_Fin_nonzero:
  "x \<noteq> 0 \<Longrightarrow> y \<noteq> 0 \<Longrightarrow> np_divide (Fin x) (Fin y) = Fin (x / y)"
  by (auto simp: np_divide_def signed_def)

lemma py_bind_eq_Inr: "(py_bind m f = Inr v) = (\<exists>x. m = Inr x \<and> f x = Inr v)"
  by (cases m) simp_all

lemma float64_range: "\<bar>x\<bar> < 2 ^ 1023 \<Longrightarrow> \<not> float64_overflows x"
  by (simp add: float64_overflows_def)

lemma np_add_Fin: "\<bar>x + y\<bar> < 2 ^ 1023 \<Longrightarrow> np_add (Fin x) (Fin y) = Fin (x + y)"
  by (simp add: np_add_def rounded_def signed_def float64_range)

lemma np_subtract_Fin: "\<bar>x - y\<bar> < 2 ^ 1023 \<Longrightarrow> np_subtract (Fin x) (Fin y) = Fin (x - y)"
  by (auto simp: np_subtract_def np_add_def rounded_def signed_def float64_range)

lemma np_subtract_self: "np_subtract (Fin x) (Fin x) = Fin 0"
  by (auto simp: np_subtract_def np_add_def rounded_def signed_def float64_overflows_def)

lemma np_square_Fin: "x * x < 2 ^ 1023 \<Longrightarrow> np_square (Fin x) = Fin (x * x)"
  by (simp add: np_square_def np_mul_def rounded_def signed_def float64_range)

lemma sum_list_abs_nonneg: "0 \<le> sum_list (map abs (xs :: real list))"
  by (induction xs) simp_all

lemma np_sum_from:
  "\<bar>a\<bar> + sum_list (map abs xs) < 2 ^ 1023
   \<Longrightarrow> foldl np_add (Fin a) (map Fin xs) = Fin (a + sum_list xs)"
proof (induction xs arbitrary: a)
  case Nil
  then show ?case by simp
next
  case (Cons x xs)
  have "\<bar>a + x\<bar> \<le> \<bar>a\<bar> + \<bar>x\<bar>" by simp
  moreover have "0 \<le> sum_list (map abs xs)" by (rule sum_list_abs_nonneg)
  ultimately have step: "\<bar>a + x\<bar> < 2 ^ 1023" and rest: "\<bar>a + x\<bar> + sum_list (map abs xs) < 2 ^ 1023"
    using Cons.prems by simp_all
  from Cons.IH [OF rest] step show ?case
    by (simp add: np_add_Fin add.assoc)
qed

lemma np_sum_Fin: "sum_list (map abs xs) < 2 ^ 1023 \<Longrightarrow> np_sum xs = Fin (sum_list xs)"
  using np_sum_from [of 0 xs] by (simp add: np_sum_def)

lemma np_average_Fin:
  "xs \<noteq> [] \<Longrightarrow> sum_list (map abs xs) < 2 ^ 1023
   \<Longrightarrow> np_average xs = Fin (sum_list xs / real (length xs))"
  by (simp add: np_average_def np_sum_Fin np_divide_Fin_pos)

section \<open>Properties of the averaging routine\<close>

lemmas averaging_defs =
  opt_rot_averaging_def molecule_averages_def accumulate_def getitem_def py_bind_def
  py_len_def py_int_def py_float_def py_truediv_def
  int_of_str_def strip_def is_space_def is_digit_def digits_value_def

text \<open>
  Claim C1. The claim reads the entry \<open>intensities[a][b*block_size + c]\<close> for block \<open>b\<close> and
  channel \<open>c\<close>, with \<open>block_size = len(parameters[a][6])\<close>, and expects \<open>[2.0, 3.0]\<close> for
  two blocks of two channels over \<open>[1, 2, 3, 4]\<close> (and \<open>[1.0, 1.5]\<close> with molar mass 2).
  Line 196 sets the stride to \<open>d = len(dir_parameters[a][5])\<close>, the length of the repeat
  count itself, and line 200 reads \<open>dir_intensities[a][(d*b)+c]\<close>. For the repeat count
  \<open>'2'\<close> the stride is 1, the blocks read are \<open>[1, 2]\<close> and \<open>[2, 3]\<close>, and the routine
  returns \<open>[1.5, 2.5]\<close> (and \<open>[0.75, 1.25]\<close> with molar mass 2). For the number \<open>2\<close> the
  call \<open>len(2)\<close> raises TypeError. The claimed \<open>[2.0, 3.0]\<close> comes out only when the
  repeat count happens to be written with as many characters as there are channels, as in
  \<open>'02'\<close>.
\<close>

theorem opt_rot_averaging_stride_is_len_of_count:
  "opt_rot_averaging [[1, 2, 3, 4]]
     [[PyStr ''OR'', PyStr ''spherical'', PyStr ''B3LYP'', PyStr ''cc-pVDZ'', PyStr ''10'',
       PyStr ''2'', PyList [PyStr ''589'', PyStr ''355'']]] [''mol''] 0 = Inr [3 / 2, 5 / 2]
   \<and> opt_rot_averaging [[1, 2, 3, 4]]
     [[PyStr ''OR'', PyStr ''spherical'', PyStr ''B3LYP'', PyStr ''cc-pVDZ'', PyStr ''10'',
       PyStr ''2'', PyList [PyStr ''589'', PyStr ''355'']]] [''mol''] 2 = Inr [3 / 4, 5 / 4]
   \<and> opt_rot_averaging [[1, 2, 3, 4]]
     [[PyStr ''OR'', PyStr ''spherical'', PyStr ''B3LYP'', PyStr ''cc-pVDZ'', PyStr ''10'',
       PyInt 2, PyList [PyStr ''589'', PyStr ''355'']]] [''mol''] 0 = Inl TypeError
   \<and> opt_rot_averaging [[1, 2, 3, 4]]
     [[PyStr ''OR'', PyStr ''spherical'', PyStr ''B3LYP'', PyStr ''cc-pVDZ'', PyStr ''10'',
       PyStr ''02'', PyList [PyStr ''589'', PyStr ''355'']]] [''mol''] 0 = Inr [2, 3]"
  by (simp add: averaging_defs)

text \<open>
  Claim C9. The result of \<open>opt_rot_averaging\<close> depends on the molecule list only through
  its length: two lists of the same length, of any entries, give the same result for the
  same intensities, parameters and molar mass.
\<close>

theorem opt_rot_averaging_list_length:
  fixes dir_list :: "'a list" and dir_list' :: "'b list"
  shows "length dir_list = length dir_list'
   \<Longrightarrow> opt_rot_averaging dir_intensities dir_parameters dir_list molecule_MM
       = opt_rot_averaging dir_intensities dir_parameters dir_list' molecule_MM"
  by (simp add: opt_rot_averaging_def)

theorem opt_rot_averaging_list_length_witness:
  "length [''R-methyloxirane''] = length [(7::nat)] \<and>
   opt_rot_averaging [[1, 2, 3, 4]]
     [[PyStr ''OR'', PyStr ''spherical'', PyStr ''B3LYP'', PyStr ''cc-pVDZ'', PyStr ''10'',
       PyStr ''2'', PyList [PyStr ''589'', PyStr ''355'']]] [''R-methyloxirane''] 0
   = opt_rot_averaging [[1, 2, 3, 4]]
     [[PyStr ''OR'', PyStr ''spherical'', PyStr ''B3LYP'', PyStr ''cc-pVDZ'', PyStr ''10'',
       PyStr ''2'', PyList [PyStr ''589'', PyStr ''355'']]] [(7::nat)] 0"
  using opt_rot_averaging_list_length [of "[''R-methyloxirane'']" "[(7::nat)]"]
  by simp

section \<open>Properties of the statistics\<close>

lemma abs_less_of_square:
  assumes "d\<^sup>2 < B" and "1 \<le> B"
  shows "\<bar>d :: real\<bar> < B"
proof (cases "\<bar>d\<bar> < 1")
  case True
  with assms(2) show ?thesis by simp
next
  case False
  then have "\<bar>d\<bar> * 1 \<le> \<bar>d\<bar> * \<bar>d\<bar>"
    by (intro mult_left_mono) simp_all
  then have "\<bar>d\<bar> \<le> d\<^sup>2"
    by (simp add: power2_eq_square)
  with assms(1) show ?thesis by simp
qed

lemma variance_step_Fin:
  assumes "m < length xs" and "m < length ys"
      and "s + (xs ! m - p)\<^sup>2 < 2 ^ 1022" and "0 \<le> s"
      and "r + (ys ! m - q)\<^sup>2 < 2 ^ 1022" and "0 \<le> r"
  shows "variance_step xs ys (Fin p) (Fin q) m
           \<lparr>sample_variance_numerator = Fin s, sample_variance = sv,
            reference_variance_numerator = Fin r, reference_variance = rv\<rparr>
         = Inr \<lparr>sample_variance_numerator = Fin (s + (xs ! m - p)\<^sup>2),
                sample_variance = Some (Fin ((s + (xs ! m - p)\<^sup>2) / real (length xs))),
                reference_variance_numerator = Fin (r + (ys ! m - q)\<^sup>2),
                reference_variance = Some (Fin ((r + (ys ! m - q)\<^sup>2) / real (length ys)))\<rparr>"
proof -
  have big: "(1 :: real) \<le> 2 ^ 1022" "(2 :: real) ^ 1022 < 2 ^ 1023"
    by simp_all
  from assms(3,4) have sq: "(xs ! m - p)\<^sup>2 < 2 ^ 1022"
    by simp
  from assms(5,6) have rq: "(ys ! m - q)\<^sup>2 < 2 ^ 1022"
    by simp
  have d1: "np_subtract (Fin (xs ! m)) (Fin p) = Fin (xs ! m - p)"
    using abs_less_of_square [OF sq big(1)] big(2) by (intro np_subtract_Fin) simp
  have d2: "np_subtract (Fin (ys ! m)) (Fin q) = Fin (ys ! m - q)"
    using abs_less_of_square [OF rq big(1)] big(2) by (intro np_subtract_Fin) simp
  have q1: "np_square (Fin (xs ! m - p)) = Fin ((xs ! m - p)\<^sup>2)"
    using sq big(2) np_square_Fin [of "xs ! m - p"] by (simp add: power2_eq_square)
  have q2: "np_square (Fin (ys ! m - q)) = Fin ((ys ! m - q)\<^sup>2)"
    using rq big(2) np_square_Fin [of "ys ! m - q"] by (simp add: power2_eq_square)
  have a1: "np_add (Fin s) (Fin ((xs ! m - p)\<^sup>2)) = Fin (s + (xs ! m - p)\<^sup>2)"
    using assms(3,4) big(2) by (intro np_add_Fin) simp
  have a2: "np_add (Fin r) (Fin ((ys ! m - q)\<^sup>2)) = Fin (r + (ys ! m - q)\<^sup>2)"
    using assms(5,6) big(2) by (intro np_add_Fin) simp
  from assms(1,2) have pos: "0 < real (length xs)" "0 < real (length ys)"
    by auto
  show ?thesis
    using assms(1,2)
    by (simp add: variance_step_def getitem_nat d1 d2 q1 q2 a1 a2
        np_divide_Fin_pos [OF pos(1)] np_divide_Fin_pos [OF pos(2)] Let_def)
qed

lemma variance_loop_prefix:
  assumes "m \<le> length xs" and "m \<le> length ys"
      and "(\<Sum>b<m. (xs ! b - p)\<^sup>2) < 2 ^ 1022"
      and "(\<Sum>b<m. (ys ! b - q)\<^sup>2) < 2 ^ 1022"
  shows "for_each [0..<m] (variance_step xs ys (Fin p) (Fin q))
           \<lparr>sample_variance_numerator = Fin 0, sample_variance = None,
            reference_variance_numerator = Fin 0, reference_variance = None\<rparr>
         = Inr \<lparr>sample_variance_numerator = Fin (\<Sum>b<m. (xs ! b - p)\<^sup>2),
                sample_variance =
                  (if m = 0 then None
                   else Some (Fin ((\<Sum>b<m. (xs ! b - p)\<^sup>2) / real (length xs)))),
                reference_variance_numerator = Fin (\<Sum>b<m. (ys ! b - q)\<^sup>2),
                reference_variance =
                  (if m = 0 then None
                   else Some (Fin ((\<Sum>b<m. (ys ! b - q)\<^sup>2) / real (length ys))))\<rparr>"
  using assms
proof (induction m)
  case 0
  then show ?case by simp
next
  case (Suc m)
  have mono: "(\<Sum>b<m. (zs ! b - c)\<^sup>2) \<le> (\<Sum>b<Suc m. (zs ! b - c)\<^sup>2)"
    for zs :: "real list" and c
    by simp
  from Suc.prems mono [of xs p] mono [of ys q]
  have pre: "(\<Sum>b<m. (xs ! b - p)\<^sup>2) < 2 ^ 1022" "(\<Sum>b<m. (ys ! b - q)\<^sup>2) < 2 ^ 1022"
    by linarith+
  from Suc.prems have lens: "m < length xs" "m < length ys" "m \<le> length xs" "m \<le> length ys"
    by auto
  note IH = Suc.IH [OF lens(3,4) pre]
  have nonneg: "0 \<le> (\<Sum>b<m. (xs ! b - p)\<^sup>2)" "0 \<le> (\<Sum>b<m. (ys ! b - q)\<^sup>2)"
    by (simp_all add: sum_nonneg)
  from Suc.prems have nxt: "(\<Sum>b<m. (xs ! b - p)\<^sup>2) + (xs ! m - p)\<^sup>2 < 2 ^ 1022"
    "(\<Sum>b<m. (ys ! b - q)\<^sup>2) + (ys ! m - q)\<^sup>2 < 2 ^ 1022"
    by simp_all
  show ?case
    unfolding for_each_upt_Suc IH
    by (simp add: variance_step_Fin [OF lens(1,2) nxt(1) nonneg(1) nxt(2) nonneg(2)])
qed











lemma np_square_not_negative: "\<not> np_lt0 (np_square a)"
  by (cases a) (auto simp: np_square_def np_mul_def rounded_def signed_def)

lemma np_add_not_negative:
  "\<not> np_lt0 a \<Longrightarrow> \<not> np_lt0 b \<Longrightarrow> \<not> np_lt0 (np_add a b)"
  by (cases a; cases b) (auto simp: np_add_def rounded_def signed_def)

lemma np_divide_length_nonneg:
  "\<not> np_lt0 a \<Longrightarrow> 0 < n \<Longrightarrow> np_divide a (Fin (real n)) = Fin v \<Longrightarrow> 0 \<le> v"
  by (cases a) (auto simp: np_divide_def signed_def split: if_splits)

lemma variance_step_same:
  assumes "variance_step xs xs p p m vars0 = Inr vars"
      and "reference_variance_numerator vars0 = sample_variance_numerator vars0"
      and "\<not> np_lt0 (sample_variance_numerator vars0)"
  shows "reference_variance_numerator vars = sample_variance_numerator vars
       \<and> reference_variance vars = sample_variance vars
       \<and> \<not> np_lt0 (sample_variance_numerator vars)
       \<and> (\<forall>v. sample_variance vars = Some (Fin v) \<longrightarrow> 0 \<le> v)"
proof (cases "m < length xs")
  case False
  with assms(1) show ?thesis
    by (simp add: variance_step_def getitem_nat)
next
  case True
  define sn where "sn = np_add (sample_variance_numerator vars0)
                          (np_square (np_subtract (Fin (xs ! m)) p))"
  from True assms(1,2) have vars:
    "vars = \<lparr>sample_variance_numerator = sn,
             sample_variance = Some (np_divide sn (Fin (real (length xs)))),
             reference_variance_numerator = sn,
             reference_variance = Some (np_divide sn (Fin (real (length xs))))\<rparr>"
    by (simp add: variance_step_def getitem_nat sn_def Let_def)
  have nn: "\<not> np_lt0 sn"
    unfolding sn_def using assms(3) np_square_not_negative by (rule np_add_not_negative)
  from True have "0 < length xs" by auto
  with nn have "0 \<le> v" if "np_divide sn (Fin (real (length xs))) = Fin v" for v
    using that by (rule np_divide_length_nonneg)
  with nn show ?thesis
    by (simp add: vars)
qed

lemma variance_loop_same:
  assumes "for_each [0..<m] (variance_step xs xs p p)
             \<lparr>sample_variance_numerator = Fin 0, sample_variance = None,
              reference_variance_numerator = Fin 0, reference_variance = None\<rparr> = Inr vars"
  shows "reference_variance_numerator vars = sample_variance_numerator vars
       \<and> reference_variance vars = sample_variance vars
       \<and> \<not> np_lt0 (sample_variance_numerator vars)
       \<and> (\<forall>v. sample_variance vars = Some (Fin v) \<longrightarrow> 0 \<le> v)"
  using assms
proof (induction m arbitrary: vars)
  case 0
  then show ?case by auto
next
  case (Suc m)
  from Suc.prems obtain vars0 where
    pre: "for_each [0..<m] (variance_step xs xs p p)
             \<lparr>sample_variance_numerator = Fin 0, sample_variance = None,
              reference_variance_numerator = Fin 0, reference_variance = None\<rparr> = Inr vars0"
    and step: "variance_step xs xs p p m vars0 = Inr vars"
    unfolding for_each_upt_Suc by (auto simp: py_bind_eq_Inr)
  from Suc.IH [OF pre] have "reference_variance_numerator vars0 = sample_variance_numerator vars0"
    and "\<not> np_lt0 (sample_variance_numerator vars0)"
    by simp_all
  with step show ?case by (rule variance_step_same)
qed

text \<open>
  Claim C7, as amended. When the sample and the reference intensity sequences are identical
  and the mean and the variance that \<open>compute_statistics\<close> computes for that sequence are
  finite numbers, the function returns the triple \<open>(0, 0, 0)\<close> of mean difference, variance
  difference and standard-deviation difference.
\<close>

theorem compute_statistics_identical:
  assumes "getitem dir_intensities sample_index = Inr xs"
      and "getitem dir_intensities reference_index = Inr xs"
      and "np_average xs = Fin m"
      and "variance_loop xs xs (np_average xs) (np_average xs) = Inr vars"
      and "sample_variance vars = Some (Fin v)"
  shows "compute_statistics dir_intensities sample_index reference_index
         = Inr (Fin 0, Fin 0, Fin 0)"
proof -
  from assms(4) have same: "reference_variance vars = sample_variance vars"
    and nonneg: "0 \<le> v"
    using variance_loop_same [of "length xs" xs "np_average xs" vars] assms(5)
    by (simp_all add: variance_loop_def)
  from nonneg have root: "np_sqrt (Fin v) = Fin (sqrt v)"
    by (simp add: not_less)
  from assms(3,4) have loop: "variance_loop xs xs (Fin m) (Fin m) = Inr vars"
    by simp
  from same assms(5) have ref: "reference_variance vars = Some (Fin v)"
    by simp
  show ?thesis
    using assms(1,2)
    by (simp add: compute_statistics_def assms(3) loop assms(5) ref read_local_def
        root np_subtract_self del: np_sqrt.simps)
qed


theorem compute_statistics_identical_witness:
  "compute_statistics [[1, 2, 4]] 0 (- 1) = Inr (Fin 0, Fin 0, Fin 0)"
proof -
  have g: "getitem [[1, 2, 4 :: real]] 0 = Inr [1, 2, 4]"
    "getitem [[1, 2, 4 :: real]] (- 1) = Inr [1, 2, 4]"
    by (simp_all add: getitem_def)
  have m: "np_average [1, 2, 4] = Fin (7 / 3)"
    by (simp add: np_average_Fin)
  have "variance_loop [1, 2, 4] [1, 2, 4] (Fin (7 / 3)) (Fin (7 / 3))
        = Inr \<lparr>sample_variance_numerator = Fin (14 / 3), sample_variance = Some (Fin (14 / 9)),
              reference_variance_numerator = Fin (14 / 3),
              reference_variance = Some (Fin (14 / 9))\<rparr>"
    unfolding variance_loop_def
    using variance_loop_prefix [of "length [1, 2, 4 :: real]" "[1, 2, 4]" "[1, 2, 4]" "7 / 3" "7 / 3"]
    by (simp add: lessThan_Suc numeral_3_eq_3 power2_eq_square)
  then have loop: "variance_loop [1, 2, 4] [1, 2, 4] (np_average [1, 2, 4]) (np_average [1, 2, 4])
        = Inr \<lparr>sample_variance_numerator = Fin (14 / 3), sample_variance = Some (Fin (14 / 9)),
              reference_variance_numerator = Fin (14 / 3),
              reference_variance = Some (Fin (14 / 9))\<rparr>"
    by (simp only: m)
  show ?thesis
    using compute_statistics_identical [OF g m loop, of "14 / 9"] by simp
qed

text \<open>
  Claim C7 as it was stated fails in two ways. For the collection \<open>[[]]\<close> the sequence is
  empty: the mean is NaN, the loop binds no variance and the function raises
  UnboundLocalError. For \<open>[[2^600, -2^600]]\<close> the squared deviation \<open>2^1200\<close> overflows to
  infinity, the difference of the two infinite variances is NaN, and the function returns
  \<open>(0, NaN, NaN)\<close>.
\<close>

theorem compute_statistics_identical_counterexample:
  "compute_statistics [[]] 0 0 = Inl UnboundLocalError
   \<and> compute_statistics [[2 ^ 600, - (2 ^ 600)]] 0 0 = Inr (Fin 0, NaN, NaN)"
proof -
  have empty: "compute_statistics [[]] 0 0 = Inl UnboundLocalError"
    by (simp add: compute_statistics_def getitem_def variance_loop_def read_local_def)
  define M :: real where "M = 2 ^ 600"
  have M: "0 < M" "\<not> float64_overflows M" "\<not> float64_overflows (- M)"
    "float64_overflows (M * M)" "\<not> float64_overflows 0"
    by (simp_all add: M_def float64_overflows_def)
  from M(1) have sq: "\<not> M * M < 0"
    by (simp add: not_less)
  have mean: "np_average [M, - M] = Fin 0"
    using M by (simp add: np_average_def np_sum_def np_add_def np_divide_def rounded_def signed_def)
  have dev: "np_square (np_subtract (Fin M) (Fin 0)) = Inf False"
    "np_square (np_subtract (Fin (- M)) (Fin 0)) = Inf False"
    using M sq
    by (simp_all add: np_square_def np_mul_def np_subtract_def np_add_def rounded_def signed_def)
  have loop: "variance_loop [M, - M] [M, - M] (Fin 0) (Fin 0)
        = Inr \<lparr>sample_variance_numerator = Inf False, sample_variance = Some (Inf False),
              reference_variance_numerator = Inf False,
              reference_variance = Some (Inf False)\<rparr>"
    by (simp add: variance_loop_def variance_step_def getitem_def dev np_add_def np_divide_def
        Let_def)
  have inf: "np_subtract (Inf False) (Inf False) = NaN"
    by (simp add: np_subtract_def np_add_def)
  have "compute_statistics [[M, - M]] 0 0 = Inr (Fin 0, NaN, NaN)"
    by (simp add: compute_statistics_def getitem_def mean loop read_local_def
        np_subtract_self inf Let_def)
  with empty show ?thesis
    by (simp only: M_def)
qed

section \<open>Properties of the sign diagnostics\<close>

lemma choose_sign_nonzero:
  "x \<noteq> 0 \<Longrightarrow> y \<noteq> 0 \<Longrightarrow>
   choose_sign (np_divide (Fin x) (Fin y)) sg = Some (if 0 < x / y then 1 else - 1)"
  by (auto simp: choose_sign_def np_divide_Fin_nonzero not_less order_le_less)

lemma choose_sign_zero:
  "y \<noteq> 0 \<Longrightarrow> choose_sign (np_divide (Fin 0) (Fin y)) sg = sg"
  by (auto simp: choose_sign_def np_divide_def signed_def)

lemma wrong_signs_loop_nonzero:
  assumes "m \<le> length rf" "m \<le> length sf" "m \<le> length si" "m \<le> length ri"
      and "\<forall>a<m. si ! a / ri ! a \<noteq> 0"
  shows "for_each [0..<m] (wrong_signs_step sf si rf ri) ([], [], None)
         = Inr (map (\<lambda>a. rf ! a - sf ! a) [0..<m],
                map (\<lambda>a. if 0 < si ! a / ri ! a then 1 else - 1) [0..<m],
                if m = 0 then None else Some (if 0 < si ! (m - 1) / ri ! (m - 1) then 1 else - 1))"
  using assms
proof (induction m)
  case 0
  then show ?case by simp
next
  case (Suc m)
  then have IH: "for_each [0..<m] (wrong_signs_step sf si rf ri) ([], [], None)
         = Inr (map (\<lambda>a. rf ! a - sf ! a) [0..<m],
                map (\<lambda>a. if 0 < si ! a / ri ! a then 1 else - 1) [0..<m],
                if m = 0 then None else Some (if 0 < si ! (m - 1) / ri ! (m - 1) then 1 else - 1))"
    by simp
  from Suc.prems have nz: "si ! m \<noteq> 0" "ri ! m \<noteq> 0"
    by auto
  from Suc.prems have lens: "m < length rf" "m < length sf" "m < length si" "m < length ri"
    by auto
  show ?case
    unfolding for_each_upt_Suc IH
    using lens nz
    by (simp add: wrong_signs_step_def getitem_nat choose_sign_nonzero read_local_def Let_def)
qed

lemma wrong_signs_step_Inr:
  assumes "wrong_signs_step sf si rf ri m (df0, sc0, sg0) = Inr (df, sc, sg)"
  shows "m < length rf \<and> m < length sf \<and> m < length si \<and> m < length ri
         \<and> df = df0 @ [rf ! m - sf ! m]
         \<and> (\<exists>v. sg = Some v \<and> sc = sc0 @ [v]
               \<and> sg = choose_sign (np_divide (Fin (si ! m)) (Fin (ri ! m))) sg0)"
  using assms
  by (auto simp: wrong_signs_step_def getitem_nat read_local_def Let_def py_bind_def
           split: if_splits sum.splits option.splits)

lemma wrong_signs_loop_inv:
  assumes "for_each [0..<m] (wrong_signs_step sf si rf ri) ([], [], None) = Inr (df, sc, sg)"
  shows "length sc = m \<and> m \<le> length rf \<and> m \<le> length sf \<and> m \<le> length si \<and> m \<le> length ri
     \<and> sg = (if m = 0 then None else Some (sc ! (m - 1)))
     \<and> (\<forall>a<m. Some (sc ! a) = choose_sign (np_divide (Fin (si ! a)) (Fin (ri ! a)))
                                 (if a = 0 then None else Some (sc ! (a - 1))))"
  using assms
proof (induction m arbitrary: df sc sg)
  case 0
  then show ?case by simp
next
  case (Suc m)
  from Suc.prems obtain df0 sc0 sg0 where
    pre: "for_each [0..<m] (wrong_signs_step sf si rf ri) ([], [], None) = Inr (df0, sc0, sg0)"
    and step: "wrong_signs_step sf si rf ri m (df0, sc0, sg0) = Inr (df, sc, sg)"
    unfolding for_each_upt_Suc
    by (cases "for_each [0..<m] (wrong_signs_step sf si rf ri) ([], [], None)") auto
  note ih = Suc.IH [OF pre]
  from wrong_signs_step_Inr [OF step] obtain v where
    lens: "m < length rf" "m < length sf" "m < length si" "m < length ri"
    and sg: "sg = Some v" and sc: "sc = sc0 @ [v]"
    and ch: "sg = choose_sign (np_divide (Fin (si ! m)) (Fin (ri ! m))) sg0"
    by blast
  from ih have len0: "length sc0 = m" by simp
  from ih have sg0: "sg0 = (if m = 0 then None else Some (sc0 ! (m - 1)))" by simp
  have last: "Some (sc ! m) = choose_sign (np_divide (Fin (si ! m)) (Fin (ri ! m)))
                                 (if m = 0 then None else Some (sc ! (m - 1)))"
    using sg sc ch sg0 len0 by (auto simp: nth_append)
  have prev: "Some (sc ! a) = choose_sign (np_divide (Fin (si ! a)) (Fin (ri ! a)))
                                 (if a = 0 then None else Some (sc ! (a - 1)))" if "a < m" for a
    using ih that sc len0 by (auto simp: nth_append)
  have all: "\<forall>a<Suc m. Some (sc ! a) = choose_sign (np_divide (Fin (si ! a)) (Fin (ri ! a)))
                                 (if a = 0 then None else Some (sc ! (a - 1)))"
    using last prev by (auto simp: less_Suc_eq)
  show ?case
    using lens sc sg len0 all by (simp add: nth_append)
qed


lemma wrong_signs_unfold:
  assumes "getitem dir_frequencies sample_index = Inr sf"
      and "getitem dir_intensities sample_index = Inr si"
      and "getitem dir_frequencies reference_index = Inr rf"
      and "getitem dir_intensities reference_index = Inr ri"
  shows "wrong_signs dir_frequencies dir_intensities sample_index reference_index
         = py_bind (for_each [0..<length rf] (wrong_signs_step sf si rf ri) ([], [], None))
             (\<lambda>vars. Inr (fst vars, fst (snd vars)))"
  using assms by (simp add: wrong_signs_def)

text \<open>
  Claim C3. For \<open>frequencies = [[0,1,2],[0,1,2]]\<close>, \<open>intensities = [[1,2,3],[1,-2,3]]\<close>,
  sample index 1 and reference index 0, \<open>wrong_signs\<close> returns the displacements
  \<open>[0,0,0]\<close> and the signs \<open>[1,-1,1]\<close>. In general, for sequences of equal length whose
  intensity ratios are all nonzero, entry \<open>a\<close> of the first output is
  \<open>reference_freq[a] - sample_freq[a]\<close>, and entry \<open>a\<close> of the second output is \<open>1\<close> when
  \<open>sample_intensity[a] / reference_intensity[a]\<close> is positive and \<open>-1\<close> when it is negative.
\<close>

theorem wrong_signs_displacement_and_sign:
  "wrong_signs [[0, 1, 2], [0, 1, 2]] [[1, 2, 3], [1, - 2, 3]] 1 0
     = Inr ([0, 0, 0], [1, - 1, 1])
   \<and> (getitem dir_frequencies sample_index = Inr sf
        \<and> getitem dir_intensities sample_index = Inr si
        \<and> getitem dir_frequencies reference_index = Inr rf
        \<and> getitem dir_intensities reference_index = Inr ri
        \<and> length sf = length rf \<and> length si = length rf \<and> length ri = length rf
        \<and> (\<forall>a<length rf. si ! a / ri ! a \<noteq> 0)
      \<longrightarrow> wrong_signs dir_frequencies dir_intensities sample_index reference_index
          = Inr (map (\<lambda>a. rf ! a - sf ! a) [0..<length rf],
                 map (\<lambda>a. if 0 < si ! a / ri ! a then 1 else - 1) [0..<length rf]))"
proof (intro conjI impI)
  show "wrong_signs [[0, 1, 2], [0, 1, 2]] [[1, 2, 3], [1, - 2, 3]] 1 0
     = Inr ([0, 0, 0], [1, - 1, 1])"
    by (simp add: wrong_signs_def wrong_signs_step_def getitem_def np_divide_def signed_def
        choose_sign_def read_local_def)
next
  assume h: "getitem dir_frequencies sample_index = Inr sf
        \<and> getitem dir_intensities sample_index = Inr si
        \<and> getitem dir_frequencies reference_index = Inr rf
        \<and> getitem dir_intensities reference_index = Inr ri
        \<and> length sf = length rf \<and> length si = length rf \<and> length ri = length rf
        \<and> (\<forall>a<length rf. si ! a / ri ! a \<noteq> 0)"
  then have "for_each [0..<length rf] (wrong_signs_step sf si rf ri) ([], [], None)
         = Inr (map (\<lambda>a. rf ! a - sf ! a) [0..<length rf],
                map (\<lambda>a. if 0 < si ! a / ri ! a then 1 else - 1) [0..<length rf],
                if length rf = 0 then None
                else Some (if 0 < si ! (length rf - 1) / ri ! (length rf - 1) then 1 else - 1))"
    by (intro wrong_signs_loop_nonzero) simp_all
  with h show "wrong_signs dir_frequencies dir_intensities sample_index reference_index
          = Inr (map (\<lambda>a. rf ! a - sf ! a) [0..<length rf],
                 map (\<lambda>a. if 0 < si ! a / ri ! a then 1 else - 1) [0..<length rf])"
    by (simp add: wrong_signs_unfold)
qed

theorem wrong_signs_displacement_and_sign_witness:
  "getitem [[100, 200], [101, 203 :: real]] 1 = Inr [101, 203]
   \<and> getitem [[5, 7], [- 10, 14 :: real]] 1 = Inr [- 10, 14]
   \<and> getitem [[100, 200], [101, 203 :: real]] 0 = Inr [100, 200]
   \<and> getitem [[5, 7], [- 10, 14 :: real]] 0 = Inr [5, 7]
   \<and> wrong_signs [[100, 200], [101, 203]] [[5, 7], [- 10, 14]] 1 0
       = Inr ([- 1, - 3], [- 1, 1])"
proof -
  have g: "getitem [[100, 200], [101, 203 :: real]] 1 = Inr [101, 203]"
    "getitem [[5, 7], [- 10, 14 :: real]] 1 = Inr [- 10, 14]"
    "getitem [[100, 200], [101, 203 :: real]] 0 = Inr [100, 200]"
    "getitem [[5, 7], [- 10, 14 :: real]] 0 = Inr [5, 7]"
    by (simp_all add: getitem_def)
  have nz: "\<forall>a<length [100, 200 :: real]. [- 10, 14 :: real] ! a / [5, 7] ! a \<noteq> 0"
    by (simp add: less_Suc_eq numeral_2_eq_2)
  have "wrong_signs [[100, 200], [101, 203]] [[5, 7], [- 10, 14]] 1 0
       = Inr (map (\<lambda>a. [100, 200] ! a - [101, 203] ! a) [0..<length [100, 200 :: real]],
                 map (\<lambda>a. if 0 < [- 10, 14 :: real] ! a / [5, 7] ! a then 1 else - 1)
                   [0..<length [100, 200 :: real]])"
    using wrong_signs_displacement_and_sign [THEN conjunct2, rule_format,
      of "[[100, 200], [101, 203]]" 1 "[101, 203]" "[[5, 7], [- 10, 14]]" "[- 10, 14]"
        0 "[100, 200]" "[5, 7]"] g nz
    by simp
  then have "wrong_signs [[100, 200], [101, 203]] [[5, 7], [- 10, 14]] 1 0
       = Inr ([- 1, - 3], [- 1, 1])"
    by simp
  with g show ?thesis by simp
qed

lemma wrong_signs_first_zero:
  assumes "rf \<noteq> []" "sf \<noteq> []" "si \<noteq> []" "ri \<noteq> []" and "si ! 0 = 0" and "ri ! 0 \<noteq> 0"
  shows "for_each [0..<length rf] (wrong_signs_step sf si rf ri) ([], [], None)
         = Inl UnboundLocalError"
proof -
  from assms(1) have "[0..<length rf] = 0 # [1..<length rf]"
    by (simp add: upt_conv_Cons)
  moreover have "wrong_signs_step sf si rf ri 0 ([], [], None) = Inl UnboundLocalError"
    using assms
    by (simp add: wrong_signs_step_def getitem_def choose_sign_zero read_local_def)
  ultimately show ?thesis by simp
qed

lemma wrong_signs_stale:
  assumes inv: "\<forall>a<m. Some (sc ! a) = choose_sign (np_divide (Fin (si ! a)) (Fin (ri ! a)))
                                 (if a = 0 then None else Some (sc ! (a - 1)))"
      and zero: "\<forall>i. j < i \<and> i \<le> a \<longrightarrow> si ! i = 0 \<and> ri ! i \<noteq> 0"
      and "j \<le> i" "i \<le> a" "a < m"
  shows "sc ! i = (sc ! j :: int)"
  using assms(3,4)
proof (induction i)
  case 0
  then show ?case by simp
next
  case (Suc i)
  show ?case
  proof (cases "j = Suc i")
    case True
    then show ?thesis by simp
  next
    case False
    with Suc.prems have ji: "j \<le> i" "j < Suc i" by auto
    from Suc.prems assms(5) have "Suc i < m" by simp
    with inv have "Some (sc ! Suc i)
        = choose_sign (np_divide (Fin (si ! Suc i)) (Fin (ri ! Suc i))) (Some (sc ! i))"
      by fastforce
    moreover from zero ji Suc.prems have "si ! Suc i = 0" "ri ! Suc i \<noteq> 0" by auto
    ultimately have "sc ! Suc i = sc ! i"
      by (simp add: choose_sign_zero)
    with Suc.IH ji Suc.prems show ?thesis by simp
  qed
qed

text \<open>
  Claim C8. In \<open>wrong_signs\<close> a ratio \<open>sample_intensity[a] / reference_intensity[a]\<close> that
  is exactly zero binds no new sign. At the first index the function then raises
  UnboundLocalError instead of returning. At a later index \<open>a\<close> the sign appended is the
  one computed at \<open>j\<close>, the most recent earlier index with a nonzero ratio (every ratio
  between \<open>j\<close> and \<open>a\<close> being zero as well).
\<close>

theorem wrong_signs_zero_ratio:
  assumes "getitem dir_frequencies sample_index = Inr sf"
      and "getitem dir_intensities sample_index = Inr si"
      and "getitem dir_frequencies reference_index = Inr rf"
      and "getitem dir_intensities reference_index = Inr ri"
  shows "(rf \<noteq> [] \<and> sf \<noteq> [] \<and> si \<noteq> [] \<and> ri \<noteq> [] \<and> si ! 0 = 0 \<and> ri ! 0 \<noteq> 0
            \<longrightarrow> wrong_signs dir_frequencies dir_intensities sample_index reference_index
                = Inl UnboundLocalError)
       \<and> (\<forall>df sc j a.
            wrong_signs dir_frequencies dir_intensities sample_index reference_index = Inr (df, sc)
            \<and> j < a \<and> a < length rf
            \<and> si ! j \<noteq> 0 \<and> ri ! j \<noteq> 0
            \<and> (\<forall>i. j < i \<and> i \<le> a \<longrightarrow> si ! i = 0 \<and> ri ! i \<noteq> 0)
            \<longrightarrow> sc ! a = sc ! j \<and> sc ! j = (if 0 < si ! j / ri ! j then 1 else - 1))"
proof (intro conjI allI impI)
  assume "rf \<noteq> [] \<and> sf \<noteq> [] \<and> si \<noteq> [] \<and> ri \<noteq> [] \<and> si ! 0 = 0 \<and> ri ! 0 \<noteq> 0"
  then have "for_each [0..<length rf] (wrong_signs_step sf si rf ri) ([], [], None)
         = Inl UnboundLocalError"
    by (intro wrong_signs_first_zero) simp_all
  then show "wrong_signs dir_frequencies dir_intensities sample_index reference_index
                = Inl UnboundLocalError"
    by (simp add: wrong_signs_unfold [OF assms])
next
  fix df sc j a
  assume h: "wrong_signs dir_frequencies dir_intensities sample_index reference_index = Inr (df, sc)
            \<and> j < a \<and> a < length rf
            \<and> si ! j \<noteq> 0 \<and> ri ! j \<noteq> 0
            \<and> (\<forall>i. j < i \<and> i \<le> a \<longrightarrow> si ! i = 0 \<and> ri ! i \<noteq> 0)"
  then obtain sg where
    loop: "for_each [0..<length rf] (wrong_signs_step sf si rf ri) ([], [], None) = Inr (df, sc, sg)"
    unfolding wrong_signs_unfold [OF assms]
    by (cases "for_each [0..<length rf] (wrong_signs_step sf si rf ri) ([], [], None)") auto
  from wrong_signs_loop_inv [OF loop]
  have inv: "\<forall>a<length rf. Some (sc ! a) = choose_sign (np_divide (Fin (si ! a)) (Fin (ri ! a)))
                                 (if a = 0 then None else Some (sc ! (a - 1)))"
    by simp
  from h have "j < length rf" by simp
  with inv have "Some (sc ! j) = choose_sign (np_divide (Fin (si ! j)) (Fin (ri ! j)))
                                 (if j = 0 then None else Some (sc ! (j - 1)))"
    by blast
  with h have at_j: "sc ! j = (if 0 < si ! j / ri ! j then 1 else - 1)"
    by (simp add: choose_sign_nonzero)
  from h have "sc ! a = sc ! j"
    by (intro wrong_signs_stale [OF inv, of j a a]) simp_all
  with at_j show "sc ! a = sc ! j" and "sc ! j = (if 0 < si ! j / ri ! j then 1 else - 1)"
    by simp_all
qed

theorem wrong_signs_zero_ratio_witness:
  "wrong_signs [[0, 1, 2], [0, 1, 2]] [[1, 2, 3], [0, - 2, 3]] 1 0 = Inl UnboundLocalError
   \<and> (\<exists>df sc. wrong_signs [[0, 1, 2], [0, 1, 2]] [[1, 2, 3], [- 1, 0, 0]] 1 0 = Inr (df, sc)
        \<and> sc ! 2 = sc ! 0 \<and> sc ! 0 = - 1)"
proof -
  have f: "getitem [[0, 1, 2], [0, 1, 2 :: real]] 1 = Inr [0, 1, 2]"
    "getitem [[0, 1, 2], [0, 1, 2 :: real]] 0 = Inr [0, 1, 2]"
    by (simp_all add: getitem_def)
  have i1: "getitem [[1, 2, 3], [0, - 2, 3 :: real]] 1 = Inr [0, - 2, 3]"
    "getitem [[1, 2, 3], [0, - 2, 3 :: real]] 0 = Inr [1, 2, 3]"
    by (simp_all add: getitem_def)
  have i2: "getitem [[1, 2, 3], [- 1, 0, 0 :: real]] 1 = Inr [- 1, 0, 0]"
    "getitem [[1, 2, 3], [- 1, 0, 0 :: real]] 0 = Inr [1, 2, 3]"
    by (simp_all add: getitem_def)
  have first: "wrong_signs [[0, 1, 2], [0, 1, 2]] [[1, 2, 3], [0, - 2, 3]] 1 0
        = Inl UnboundLocalError"
    using wrong_signs_zero_ratio [OF f(1) i1(1) f(2) i1(2), THEN conjunct1] by simp
  have ev: "wrong_signs [[0, 1, 2], [0, 1, 2]] [[1, 2, 3], [- 1, 0, 0]] 1 0
        = Inr ([0, 0, 0], [- 1, - 1, - 1])"
    by (simp add: wrong_signs_def wrong_signs_step_def getitem_def np_divide_def signed_def
        choose_sign_def read_local_def)
  have zero: "\<forall>i. 0 < i \<and> i \<le> 2 \<longrightarrow> [- 1, 0, 0 :: real] ! i = 0 \<and> [1, 2, 3 :: real] ! i \<noteq> 0"
    by (auto simp: nth_Cons' le_Suc_eq numeral_2_eq_2)
  have "[- 1, - 1, - 1 :: int] ! 2 = [- 1, - 1, - 1] ! 0
        \<and> [- 1, - 1, - 1 :: int] ! 0 = (if 0 < [- 1, 0, 0 :: real] ! 0 / [1, 2, 3] ! 0 then 1 else - 1)"
    using wrong_signs_zero_ratio [OF f(1) i2(1) f(2) i2(2), THEN conjunct2, rule_format,
        of "[0, 0, 0]" "[- 1, - 1, - 1]" 0 2] ev zero
    by simp
  with first ev show ?thesis by simp
qed

section \<open>Properties of the slope signs\<close>


lemma last_index_iff: "(int a = int n - 1) = (Suc a = n)"
  by auto

lemma normal_mode_step_last:
  "Suc a = length rf \<Longrightarrow>
   normal_mode_step sf si rf ri a (slope_sign, sign) = Inr (slope_sign @ [0], sign)"
  by (simp add: normal_mode_step_def last_index_iff)



lemma normal_mode_unfold:
  assumes "getitem dir_frequencies sample_index = Inr sf"
      and "getitem dir_intensities sample_index = Inr si"
      and "getitem dir_frequencies reference_index = Inr rf"
      and "getitem dir_intensities reference_index = Inr ri"
  shows "normal_mode_reordering dir_frequencies dir_intensities sample_index reference_index
         = py_bind (for_each [0..<length rf] (normal_mode_step sf si rf ri) ([], None))
             (\<lambda>vars. Inr (fst vars))"
  using assms by (simp add: normal_mode_reordering_def)



text \<open>
  Claim C10. When the reference frequency sequence has exactly one element,
  \<open>normal_mode_reordering\<close> returns \<open>[0]\<close> whatever the sample frequency and sample
  intensity sequences hold: they may be empty or of any length.
\<close>

theorem normal_mode_reordering_single:
  assumes "getitem dir_frequencies sample_index = Inr sf"
      and "getitem dir_intensities sample_index = Inr si"
      and "getitem dir_frequencies reference_index = Inr rf"
      and "getitem dir_intensities reference_index = Inr ri"
      and "length rf = 1"
  shows "normal_mode_reordering dir_frequencies dir_intensities sample_index reference_index
         = Inr [0]"
  unfolding normal_mode_unfold [OF assms(1-4)]
  using assms(5) by (simp add: normal_mode_step_last)

theorem normal_mode_reordering_single_witness:
  "normal_mode_reordering [[500], []] [[3], [7, 8, 9]] 1 0 = Inr [0]"
proof -
  have g: "getitem [[500], [] :: real list] 1 = Inr []"
    "getitem [[3], [7, 8, 9 :: real]] 1 = Inr [7, 8, 9]"
    "getitem [[500], [] :: real list] 0 = Inr [500]"
    "getitem [[3], [7, 8, 9 :: real]] 0 = Inr [3]"
    by (simp_all add: getitem_def)
  show ?thesis
    using normal_mode_reordering_single [OF g] by simp
qed

section \<open>Properties of the overlap family\<close>

lemma np_multiply_scale_left:
  "np_multiply xs ys = Inr p \<Longrightarrow> np_multiply (map ((*) c) xs) ys = Inr (map ((*) c) p)"
  by (auto simp: np_multiply_def broadcast_def zip_map1 length_Suc_conv mult.assoc
           split: if_splits)

lemma np_multiply_scale_right:
  "np_multiply xs ys = Inr p \<Longrightarrow> np_multiply xs (map ((*) c) ys) = Inr (map ((*) c) p)"
  by (auto simp: np_multiply_def broadcast_def zip_map2 length_Suc_conv mult.left_commute
           split: if_splits)

lemma pair_sums_scale:
  "map2 (+) (tl (map ((*) c) y)) (butlast (map ((*) c) y))
     = map ((*) (c :: real)) (map2 (+) (tl y) (butlast y))"
  by (simp add: map_tl [symmetric] map_butlast [symmetric] zip_map1 zip_map2 distrib_left
      split_def o_def)

lemma np_trapz_scale:
  assumes "np_trapz y x = Inr t"
  shows "np_trapz (map ((*) c) y) x = Inr (c * t)"
proof -
  from assms obtain p where
    p: "np_multiply (np_diff x) (map2 (+) (tl y) (butlast y)) = Inr p"
    and t: "t = sum_list (map (\<lambda>v. v / 2) p)"
    by (auto simp: np_trapz_def py_bind_eq_Inr)
  have "sum_list (map (\<lambda>v. v / 2) (map ((*) c) p)) = c * sum_list (map (\<lambda>v. v / 2) p)"
    by (simp add: sum_list_const_mult [symmetric] o_def)
  with np_multiply_scale_right [OF p, of c] t show ?thesis
    by (simp add: np_trapz_def pair_sums_scale)
qed

lemma np_multiply_self: "np_multiply ys ys = Inr (map (\<lambda>v. v * v) ys)"
  by (simp add: np_multiply_def broadcast_def zip_same_conv_map)

lemma squares_eq: "map (\<lambda>v. v ^ 2) ys = map (\<lambda>v. v * v) (ys :: real list)"
  by (simp add: power2_eq_square)

text \<open>
  Claim C2. When the sample and the reference intensity sequences are identical (as for
  \<open>sample_index = reference_index\<close>) and the reference self-overlap integral
  \<open>np.trapz(reference_intensity * reference_intensity, x = reference_frequency)\<close> is
  strictly positive, \<open>double_denominator_overlap\<close> returns exactly 1 and
  \<open>integrated_difference\<close> returns exactly 0, in exact arithmetic.
\<close>

theorem identical_spectra_overlap:
  assumes "getitem dir_intensity_axis sample_index = Inr ys"
      and "getitem dir_intensity_axis reference_index = Inr ys"
      and "getitem dir_frequency_axis reference_index = Inr xs"
      and "py_bind (np_multiply ys ys) (\<lambda>rr. np_trapz rr xs) = Inr t"
      and "0 < t"
  shows "double_denominator_overlap dir_frequency_axis dir_intensity_axis
           sample_index reference_index = Inr (Fin 1)
       \<and> integrated_difference dir_frequency_axis dir_intensity_axis
           sample_index reference_index = Inr (Fin 0)"
proof -
  from assms(4) have tr: "np_trapz (map (\<lambda>v. v * v) ys) xs = Inr t"
    by (simp add: np_multiply_self)
  from assms(5) have root: "sqrt (t * t) = t" by simp
  have "double_denominator_overlap dir_frequency_axis dir_intensity_axis
           sample_index reference_index = Inr (Fin 1)"
    using assms(1-3,5) tr
    by (simp add: double_denominator_overlap_def np_multiply_self root np_divide_Fin_pos
        del: real_sqrt_mult_self real_sqrt_abs2)
  moreover have "integrated_difference dir_frequency_axis dir_intensity_axis
           sample_index reference_index = Inr (Fin 0)"
    using assms(1-3,5) tr
    by (simp add: integrated_difference_def squares_eq np_divide_Fin_pos)
  ultimately show ?thesis by simp
qed

theorem identical_spectra_overlap_witness:
  "double_denominator_overlap [[0, 1, 2]] [[1, 2, 3]] 0 0 = Inr (Fin 1)
   \<and> integrated_difference [[0, 1, 2]] [[1, 2, 3]] 0 0 = Inr (Fin 0)"
proof -
  have g: "getitem [[1, 2, 3 :: real]] 0 = Inr [1, 2, 3]"
    "getitem [[0, 1, 2 :: real]] 0 = Inr [0, 1, 2]"
    by (simp_all add: getitem_def)
  have t: "py_bind (np_multiply [1, 2, 3] [1, 2, 3]) (\<lambda>rr. np_trapz rr [0, 1, 2]) = Inr 9"
    by (simp add: np_multiply_def broadcast_def np_trapz_def np_diff_def)
  show ?thesis
    using identical_spectra_overlap [OF g(1) g(1) g(2) t] by simp
qed


lemma overlap_integral_scale_left:
  assumes "py_bind (np_multiply a b) (\<lambda>p. np_trapz p x) = Inr t"
  shows "\<exists>p. np_multiply (map ((*) c) a) b = Inr p \<and> np_trapz p x = Inr (c * t)"
proof -
  from assms obtain p where p: "np_multiply a b = Inr p" and t: "np_trapz p x = Inr t"
    by (auto simp: py_bind_eq_Inr)
  from np_multiply_scale_left [OF p, of c] np_trapz_scale [OF t, of c]
  show ?thesis by simp
qed

lemma overlap_integral_scale_both:
  assumes "py_bind (np_multiply a b) (\<lambda>p. np_trapz p x) = Inr t"
  shows "\<exists>p. np_multiply (map ((*) c) a) (map ((*) c) b) = Inr p
             \<and> np_trapz p x = Inr (c * (c * t))"
proof -
  from assms obtain p where p: "np_multiply a b = Inr p" and t: "np_trapz p x = Inr t"
    by (auto simp: py_bind_eq_Inr)
  from np_multiply_scale_left [OF p, of c]
  have "np_multiply (map ((*) c) a) (map ((*) c) b) = Inr (map ((*) c) (map ((*) c) p))"
    by (rule np_multiply_scale_right)
  moreover from np_trapz_scale [OF np_trapz_scale [OF t, of c], of c]
  have "np_trapz (map ((*) c) (map ((*) c) p)) x = Inr (c * (c * t))" .
  ultimately show ?thesis by simp
qed

text \<open>
  Claim C4. Take two calls that see the same sample intensities and the same reference
  frequencies, the second with every reference intensity doubled. When the self-overlap
  integrals of the reference and of the sample are strictly positive (and the integral of
  their product is defined), the second call of \<open>single_denominator_overlap\<close> returns
  half the value of the first, and the two calls of \<open>double_denominator_overlap\<close> return
  the same value, in exact arithmetic.
\<close>

theorem doubling_reference_intensity:
  assumes "getitem dir_intensity_axis sample_index = Inr si"
      and "getitem dir_frequency_axis reference_index = Inr rf"
      and "getitem dir_intensity_axis reference_index = Inr ri"
      and "getitem dir_intensity_axis' sample_index' = Inr si"
      and "getitem dir_frequency_axis' reference_index' = Inr rf"
      and "getitem dir_intensity_axis' reference_index' = Inr (map ((*) 2) ri)"
      and "py_bind (np_multiply ri si) (\<lambda>rs. np_trapz rs rf) = Inr n"
      and "py_bind (np_multiply ri ri) (\<lambda>rr. np_trapz rr rf) = Inr tr"
      and "py_bind (np_multiply si si) (\<lambda>ss. np_trapz ss rf) = Inr ts"
      and "0 < tr" and "0 < ts"
  shows "single_denominator_overlap dir_frequency_axis dir_intensity_axis
           sample_index reference_index = Inr (Fin (n / tr))
       \<and> single_denominator_overlap dir_frequency_axis' dir_intensity_axis'
           sample_index' reference_index' = Inr (Fin (n / tr / 2))
       \<and> double_denominator_overlap dir_frequency_axis dir_intensity_axis
           sample_index reference_index = Inr (Fin (n / sqrt (tr * ts)))
       \<and> double_denominator_overlap dir_frequency_axis' dir_intensity_axis'
           sample_index' reference_index' = Inr (Fin (n / sqrt (tr * ts)))"
proof -
  from assms(7) obtain rs where rs: "np_multiply ri si = Inr rs" "np_trapz rs rf = Inr n"
    by (auto simp: py_bind_eq_Inr)
  from assms(8) obtain rr where rr: "np_multiply ri ri = Inr rr" "np_trapz rr rf = Inr tr"
    by (auto simp: py_bind_eq_Inr)
  from assms(9) obtain ss where ss: "np_multiply si si = Inr ss" "np_trapz ss rf = Inr ts"
    by (auto simp: py_bind_eq_Inr)
  from overlap_integral_scale_left [OF assms(7), of 2] obtain rs' where
    rs': "np_multiply (map ((*) 2) ri) si = Inr rs'" "np_trapz rs' rf = Inr (2 * n)"
    by blast
  from overlap_integral_scale_both [OF assms(8), of 2] obtain rr' where
    rr': "np_multiply (map ((*) 2) ri) (map ((*) 2) ri) = Inr rr'"
      "np_trapz rr' rf = Inr (2 * (2 * tr))"
    by blast
  from assms(10,11) have pos: "0 < tr * ts" "0 < sqrt (tr * ts)" "0 < 2 * (2 * tr)"
    by simp_all
  have root: "np_sqrt (Fin (tr * ts)) = Fin (sqrt (tr * ts))"
    using pos(1) by simp
  have "sqrt (4 * tr * ts) = 2 * sqrt (tr * ts)"
    by (simp add: real_sqrt_mult)
  moreover have "\<not> 4 * tr * ts < 0"
    using pos(1) by (simp add: mult.assoc)
  ultimately have root': "np_sqrt (Fin (4 * tr * ts)) = Fin (2 * sqrt (tr * ts))"
    by simp
  have pos': "0 < 2 * sqrt (tr * ts)"
    using pos(2) by simp
  have s1: "single_denominator_overlap dir_frequency_axis dir_intensity_axis
           sample_index reference_index = Inr (Fin (n / tr))"
    using assms(1-3,10) rs rr
    by (simp add: single_denominator_overlap_def np_divide_Fin_pos)
  have s2: "single_denominator_overlap dir_frequency_axis' dir_intensity_axis'
           sample_index' reference_index' = Inr (Fin (n / tr / 2))"
    using assms(4-6) pos(3) rs' rr'
    by (simp add: single_denominator_overlap_def np_divide_Fin_pos)
  have d1: "double_denominator_overlap dir_frequency_axis dir_intensity_axis
           sample_index reference_index = Inr (Fin (n / sqrt (tr * ts)))"
    using assms(1-3) pos(2) rs rr ss
    by (simp add: double_denominator_overlap_def root np_divide_Fin_pos del: np_sqrt.simps)
  have d2: "double_denominator_overlap dir_frequency_axis' dir_intensity_axis'
           sample_index' reference_index' = Inr (Fin (n / sqrt (tr * ts)))"
    using assms(4-6) rs' rr' ss
    by (simp add: double_denominator_overlap_def root' np_divide_Fin_pos [OF pos']
        del: np_sqrt.simps)
  from s1 s2 d1 d2 show ?thesis by simp
qed

theorem doubling_reference_intensity_witness:
  "single_denominator_overlap [[0, 1, 2]] [[1, 2, 3], [3, 2, 1]] 1 0 = Inr (Fin (7 / 9))
   \<and> single_denominator_overlap [[0, 1, 2]] [[2, 4, 6], [3, 2, 1]] 1 0 = Inr (Fin (7 / 9 / 2))
   \<and> double_denominator_overlap [[0, 1, 2]] [[1, 2, 3], [3, 2, 1]] 1 0
       = Inr (Fin (7 / sqrt (9 * 9)))
   \<and> double_denominator_overlap [[0, 1, 2]] [[2, 4, 6], [3, 2, 1]] 1 0
       = Inr (Fin (7 / sqrt (9 * 9)))"
proof -
  have g: "getitem [[1, 2, 3], [3, 2, 1 :: real]] 1 = Inr [3, 2, 1]"
    "getitem [[0, 1, 2 :: real]] 0 = Inr [0, 1, 2]"
    "getitem [[1, 2, 3], [3, 2, 1 :: real]] 0 = Inr [1, 2, 3]"
    "getitem [[2, 4, 6], [3, 2, 1 :: real]] 1 = Inr [3, 2, 1]"
    "getitem [[0, 1, 2 :: real]] 0 = Inr [0, 1, 2]"
    "getitem [[2, 4, 6], [3, 2, 1 :: real]] 0 = Inr (map ((*) 2) [1, 2, 3])"
    by (simp_all add: getitem_def)
  have t: "py_bind (np_multiply [1, 2, 3] [3, 2, 1]) (\<lambda>rs. np_trapz rs [0, 1, 2]) = Inr 7"
    "py_bind (np_multiply [1, 2, 3] [1, 2, 3]) (\<lambda>rr. np_trapz rr [0, 1, 2]) = Inr 9"
    "py_bind (np_multiply [3, 2, 1] [3, 2, 1]) (\<lambda>ss. np_trapz ss [0, 1, 2]) = Inr 9"
    by (simp_all add: np_multiply_def broadcast_def np_trapz_def np_diff_def)
  show ?thesis
    using doubling_reference_intensity [OF g t] by simp
qed

end
